theory Spec2Isabelle
  imports Complex_Main "HOL-Library.Sublist" "HOL-Library.Multiset"
begin

section \<open>JavaScript values\<close>

text \<open>
  The values the utilities receive at run time. A number is a finite real, an infinity
  or NaN; an array and an object carry their elements in order.
\<close>

datatype js_number = NaN | PosInfinity | NegInfinity | Fin real

datatype js_value =
    JUndefined
  | JNull
  | JBool bool
  | JNum js_number
  | JStr string
  | JArr "js_value list"
  | JObj "(string \<times> js_value) list"

text \<open>\<open>!value\<close> is true exactly for the falsy values of the language.\<close>

fun falsy :: "js_value \<Rightarrow> bool" where
  "falsy JUndefined = True"
| "falsy JNull = True"
| "falsy (JBool b) = (\<not> b)"
| "falsy (JNum NaN) = True"
| "falsy (JNum (Fin r)) = (r = 0)"
| "falsy (JNum n) = False"
| "falsy (JStr s) = (s = [])"
| "falsy (JArr xs) = False"
| "falsy (JObj kvs) = False"

fun isArray :: "js_value \<Rightarrow> bool" where
  "isArray (JArr xs) = True"
| "isArray v = False"

subsection \<open>utils/xmlParser.ts: ensureArray\<close>

text \<open>
  \<^verbatim>\<open>if (!value) return [];  return Array.isArray(value) ? value : [value];\<close>
\<close>

fun ensureArray :: "js_value \<Rightarrow> js_value list" where
  "ensureArray v =
     (if falsy v then []
      else (case v of JArr xs \<Rightarrow> xs | _ \<Rightarrow> [v]))"


section \<open>Strings and numbers of the language\<close>

text \<open>\<open>String(n)\<close> for an integer: its decimal digits, with a minus sign when negative.\<close>

definition digit_char :: "nat \<Rightarrow> char" where
  "digit_char d = ''0123456789'' ! d"

fun decimal :: "nat \<Rightarrow> string" where
  "decimal n = (if n < 10 then [digit_char n] else decimal (n div 10) @ [digit_char (n mod 10)])"

declare decimal.simps [simp del]


text \<open>\<open>s.padStart(n, c)\<close> with a one-character filler.\<close>

definition padStart :: "nat \<Rightarrow> char \<Rightarrow> string \<Rightarrow> string" where
  "padStart n c s = replicate (n - length s) c @ s"

text \<open>Exceptions are values; an async function settles to an error or a result.\<close>

datatype js_error = Error string | TypeError string | SyntaxError string | RangeError string

datatype log_level = LOG_ERROR | LOG_WARN

type_synonym log = "(log_level \<times> string) list"

section \<open>services/freshnessService.ts\<close>












section \<open>types/index.ts\<close>

datatype FetchTimeRange = D1 | D3 | D7 | D30


text \<open>
  \<open>publishedAt?: Date | string\<close>. A \<open>Date\<close> object carries its time value in
  milliseconds, \<open>None\<close> for an invalid date.
\<close>

datatype published = PString string | PDate "int option"

text \<open>
  A feed item; an optional field is \<open>None\<close> when absent. The fields that only the user
  interface reads (\<open>aiSummaryLoading\<close>, \<open>aiSummaryError\<close>) are left out.
\<close>

record FeedItem =
  item_id :: string
  title :: string
  source :: string
  sourceName :: "string option"
  url :: string
  summary :: "string option"
  publishedAt :: "published option"
  tags :: "string list option"
  aiSummary :: "string option"
  score :: "int option"
  author :: "string option"
  commentCount :: "int option"
  upvotes :: "int option"
  isPinned :: "bool option"

text \<open>
  A configured source. The provider tag \<open>src_type\<close> is the string the registry is keyed
  by; presentation fields (icon, category, colour, description) are left out.
\<close>

record SourceConfig =
  src_id :: string
  src_type :: string
  src_url :: "string option"
  enabled :: bool
  name :: string
  fetchCount :: int
  fetchTimeRange :: "FetchTimeRange option"
  src_minScore :: "int option"
  src_isPinned :: "bool option"

section \<open>sources/base/BaseSource.ts: the adapter interface\<close>

text \<open>
  \<open>SourceFetchOptions\<close>: \<open>count\<close> and the provider keys the aggregator sets.
\<close>

record SourceFetchOptions =
  count :: "int option"
  minScore :: "int option"
  query :: "string option"
  opt_url :: "string option"
  opt_sourceName :: "string option"
  timeRange :: "FetchTimeRange option"

text \<open>
  An adapter's \<open>fetch\<close> talks to the network; what the registry sees of one call is
  that it throws or returns items.
\<close>

type_synonym adapter = "SourceFetchOptions option \<Rightarrow> js_error + FeedItem list"

section \<open>sources/SourceRegistry.ts\<close>

type_synonym registry = "string \<rightharpoonup> adapter"

definition has :: "registry \<Rightarrow> string \<Rightarrow> bool" where
  "has sources n = (sources n \<noteq> None)"

text \<open>
  \<open>register\<close> throws when the name (given with the adapter) is taken.
\<close>

definition register :: "registry \<Rightarrow> string \<Rightarrow> adapter \<Rightarrow> js_error + registry" where
  "register sources key src =
     (if has sources key then Inl (Error (''Source '' @ key @ '' is already registered''))
      else Inr (sources(key \<mapsto> src)))"

definition unregister :: "registry \<Rightarrow> string \<Rightarrow> registry" where
  "unregister sources n = sources(n := None)"

text \<open>
  \<open>fetchFrom\<close> is an async function: it settles to \<open>Inl\<close> (rejected) or \<open>Inr\<close>
  (fulfilled), and writes to the console.
\<close>

definition fetchFrom ::
  "registry \<Rightarrow> string \<Rightarrow> SourceFetchOptions option \<Rightarrow> (js_error + FeedItem list) \<times> log" where
  "fetchFrom sources n options =
     (case sources n of
        None \<Rightarrow> (Inr [], [(LOG_ERROR, ''Source '' @ n @ '' not found in registry'')])
      | Some src \<Rightarrow>
          (case src options of
             Inr items \<Rightarrow> (Inr items, [])
           | Inl error \<Rightarrow> (Inr [], [(LOG_ERROR, ''Error fetching from '' @ n @ '':'')])))"

text \<open>
  \<open>fetchFromMany\<close>: \<open>Promise.allSettled\<close> over the calls, then the values of the
  fulfilled ones are appended in the order of the names. The console lines are given in
  the order of the names too.
\<close>

definition settled_value :: "(js_error + FeedItem list) \<Rightarrow> FeedItem list" where
  "settled_value r = (case r of Inr v \<Rightarrow> v | Inl e \<Rightarrow> [])"

definition fetchFromMany ::
  "registry \<Rightarrow> string list \<Rightarrow> SourceFetchOptions option \<Rightarrow> (js_error + FeedItem list) \<times> log" where
  "fetchFromMany sources sourceNames options =
     (let results = map (\<lambda>n. fetchFrom sources n options) sourceNames
      in (Inr (concat (map (\<lambda>r. settled_value (fst r)) results)), concat (map snd results)))"

section \<open>utils/chrome.ts: writing to the store\<close>

text \<open>
  \<open>safeStorageSet\<close> wraps one write in a promise. Inside the extension the write goes to
  \<open>chrome.storage.local.set(items, resolve)\<close>: a write the store refuses (it is over its
  quota) is reported through \<open>lastError\<close>, the callback still runs, and the promise
  resolves with nothing written. Outside the extension the write is
  \<open>localStorage.setItem\<close>, which throws on a refused write; it throws inside the
  executor of the promise, so the promise rejects. \<open>accepts\<close> says which writes the
  store behind the call takes.
\<close>

record 'v storage_env =
  isChromeExtension :: bool
  accepts :: "string \<Rightarrow> 'v \<Rightarrow> bool"

text \<open>
  The store itself is the state \<open>'s\<close>; \<open>write\<close> is the change the accepted write makes
  to it.
\<close>

definition safeStorageSet ::
  "'v storage_env \<Rightarrow> string \<Rightarrow> 'v \<Rightarrow> ('s \<Rightarrow> 's) \<Rightarrow> 's \<Rightarrow> js_error + 's" where
  "safeStorageSet env key v write st =
     (if isChromeExtension env then Inr (if accepts env key v then write st else st)
      else if accepts env key v then Inr (write st)
      else Inl (Error ''QuotaExceededError''))"

section \<open>services/dataFetcher.ts: the aggregator\<close>

text \<open>
  The module that exports \<open>fetchAllData\<close> and \<open>setForceRefresh\<close>; its text is the second
  part of \<^verbatim>\<open>src/services/aiService.ts\<close> in the sources.
\<close>

record CacheEntry =
  items :: "FeedItem list"
  timestamp :: int

text \<open>
  The state the aggregator works on: the cache entries of the key-value store, the
  module's \<open>forceRefresh\<close> flag and the console. \<open>getCache\<close> reads one key of the
  store; \<open>saveCache\<close> writes one through \<open>safeStorageSet\<close>.
\<close>

record fetcher_state =
  storage :: "string \<rightharpoonup> CacheEntry"
  forceRefresh :: bool
  console :: log

definition CACHE_DURATION :: int where
  "CACHE_DURATION = 30 * 60 * 1000"

definition setForceRefresh :: "bool \<Rightarrow> fetcher_state \<Rightarrow> fetcher_state" where
  "setForceRefresh v st = st\<lparr>forceRefresh := v\<rparr>"

definition truthy_int :: "int option \<Rightarrow> bool" where
  "truthy_int v = (case v of None \<Rightarrow> False | Some i \<Rightarrow> i \<noteq> 0)"

definition truthy_string :: "string option \<Rightarrow> bool" where
  "truthy_string v = (case v of None \<Rightarrow> False | Some s \<Rightarrow> s \<noteq> [])"

definition mapSourceConfigToOptions :: "SourceConfig \<Rightarrow> SourceFetchOptions" where
  "mapSourceConfigToOptions src =
     (let baseOptions = \<lparr>count = Some (fetchCount src), minScore = None, query = None,
                          opt_url = None, opt_sourceName = None, timeRange = None\<rparr>;
          o1 = (if src_type src = ''HackerNews'' \<and> truthy_int (src_minScore src)
                then baseOptions\<lparr>minScore := src_minScore src\<rparr> else baseOptions);
          o2 = (if src_type src = ''ArXiv''
                then o1\<lparr>query := Some ''cat:cs.AI OR cat:cs.LG OR cat:cs.CL''\<rparr> else o1)
      in if src_type src = ''RSS'' \<and> truthy_string (src_url src)
         then o2\<lparr>opt_url := src_url src, opt_sourceName := Some (name src),
                 timeRange := Some (case fetchTimeRange src of None \<Rightarrow> D7 | Some r \<Rightarrow> r)\<rparr>
         else o2)"

definition cacheKey :: "SourceConfig \<Rightarrow> string" where
  "cacheKey src = ''cache_'' @ (if src_id src \<noteq> [] then src_id src else src_type src)"

definition cached_items :: "CacheEntry option \<Rightarrow> FeedItem list" where
  "cached_items cachedData = (case cachedData of None \<Rightarrow> [] | Some c \<Rightarrow> items c)"

definition saveCache ::
  "CacheEntry storage_env \<Rightarrow> string \<Rightarrow> CacheEntry \<Rightarrow> (string \<rightharpoonup> CacheEntry)
     \<Rightarrow> js_error + (string \<rightharpoonup> CacheEntry)" where
  "saveCache env key v store = safeStorageSet env key v (\<lambda>m. m(key \<mapsto> v)) store"

text \<open>
  \<open>fetchDataByType\<close>, with \<open>now\<close> the clock reading of the call. The body of the
  \<open>try\<close> is \<open>fetchDataByType_try\<close>: it ends in \<open>Inl\<close> when an awaited call rejects,
  with the state as it is by then, and the \<open>catch\<close> block then answers from the cache.
\<close>

definition fetchDataByType_try ::
  "CacheEntry storage_env \<Rightarrow> registry \<Rightarrow> int \<Rightarrow> SourceConfig \<Rightarrow> CacheEntry option \<Rightarrow> fetcher_state
     \<Rightarrow> (js_error + FeedItem list) \<times> fetcher_state" where
  "fetchDataByType_try env sources now src cachedData st =
     (let sourceName = src_type src in
      if \<not> has sources sourceName
      then (Inr (cached_items cachedData),
            st\<lparr>console := console st @
                  [(LOG_WARN, ''Source '' @ sourceName @ '' not found in registry'')]\<rparr>)
      else
        (case fetchFrom sources sourceName (Some (mapSourceConfigToOptions src)) of
           (Inl e, lg) \<Rightarrow> (Inl e, st\<lparr>console := console st @ lg\<rparr>)
         | (Inr its, lg) \<Rightarrow>
             (case saveCache env (cacheKey src) \<lparr>items = its, timestamp = now\<rparr> (storage st) of
                Inl e \<Rightarrow> (Inl e, st\<lparr>console := console st @ lg\<rparr>)
              | Inr store \<Rightarrow> (Inr its, st\<lparr>console := console st @ lg, storage := store\<rparr>))))"

definition fetchDataByType ::
  "CacheEntry storage_env \<Rightarrow> registry \<Rightarrow> int \<Rightarrow> SourceConfig \<Rightarrow> fetcher_state
     \<Rightarrow> FeedItem list \<times> fetcher_state" where
  "fetchDataByType env sources now src st =
     (let cachedData = storage st (cacheKey src) in
      if \<not> forceRefresh st \<and>
         (case cachedData of None \<Rightarrow> False | Some c \<Rightarrow> now - timestamp c < CACHE_DURATION)
      then (cached_items cachedData, st)
      else
        (case fetchDataByType_try env sources now src cachedData st of
           (Inr its, st1) \<Rightarrow> (its, st1)
         | (Inl error, st1) \<Rightarrow>
             (cached_items cachedData,
              st1\<lparr>console := console st1 @ [(LOG_ERROR, ''Error fetching '' @ src_type src @ '':'')]\<rparr>)))"


text \<open>
  What the JavaScript runtime provides and the code calls: \<open>Date.parse\<close> (\<open>None\<close> for
  \<open>NaN\<close>) and \<open>toISOString\<close> of a valid time value.
\<close>

record runtime =
  Date_parse :: "string \<Rightarrow> int option"
  toISOString :: "int \<Rightarrow> string"

text \<open>
  \<open>Array.prototype.sort(comparefn)\<close> as a stable insertion sort: each element in turn is
  the pivot and moves left past the elements \<open>e\<close> with \<open>comparefn(pivot, e) < 0\<close>. The
  sorted prefix is kept reversed while inserting. For a comparefn that is a consistent
  order, every stable sort returns this list; for any other the language leaves the
  order to the engine.
\<close>

fun insert_pivot :: "('a \<Rightarrow> 'a \<Rightarrow> int) \<Rightarrow> 'a \<Rightarrow> 'a list \<Rightarrow> 'a list" where
  "insert_pivot comparefn pivot [] = [pivot]"
| "insert_pivot comparefn pivot (e # es) =
     (if comparefn pivot e < 0 then e # insert_pivot comparefn pivot es else pivot # e # es)"

definition Array_sort :: "('a \<Rightarrow> 'a \<Rightarrow> int) \<Rightarrow> 'a list \<Rightarrow> 'a list" where
  "Array_sort comparefn xs = rev (foldl (\<lambda>sorted pivot. insert_pivot comparefn pivot sorted) [] xs)"

text \<open>
  A comparefn is a consistent order on a set of values when "comes before"
  (\<open>comparefn(x, y) < 0\<close>) is never mutual and "does not come before" is transitive.
\<close>

definition consistent_on :: "'a set \<Rightarrow> ('a \<Rightarrow> 'a \<Rightarrow> int) \<Rightarrow> bool" where
  "consistent_on A cmp \<longleftrightarrow>
     (\<forall>x \<in> A. \<forall>y \<in> A. cmp x y < 0 \<longrightarrow> \<not> cmp y x < 0) \<and>
     (\<forall>x \<in> A. \<forall>y \<in> A. \<forall>z \<in> A. \<not> cmp x y < 0 \<and> \<not> cmp y z < 0 \<longrightarrow> \<not> cmp x z < 0)"

text \<open>
  \<open>(d?.getTime() || 0)\<close> for
  \<open>d = x.publishedAt instanceof Date ? x.publishedAt : new Date(x.publishedAt || 0)\<close>.
\<close>

definition getTime_or_0 :: "runtime \<Rightarrow> FeedItem \<Rightarrow> int" where
  "getTime_or_0 rt x =
     (case publishedAt x of
        None \<Rightarrow> 0
      | Some (PDate d) \<Rightarrow> (case d of None \<Rightarrow> 0 | Some t \<Rightarrow> t)
      | Some (PString s) \<Rightarrow>
          if s = [] then 0 else (case Date_parse rt s of None \<Rightarrow> 0 | Some t \<Rightarrow> t))"

text \<open>The comparefn of \<open>fetchAllData\<close>; \<open>!==\<close> tells \<open>undefined\<close> from \<open>false\<close>.\<close>

definition compare_items :: "runtime \<Rightarrow> FeedItem \<Rightarrow> FeedItem \<Rightarrow> int" where
  "compare_items rt a b =
     (if isPinned a \<noteq> isPinned b then (if isPinned a = Some True then - 1 else 1)
      else getTime_or_0 rt b - getTime_or_0 rt a)"

text \<open>
  The calls of \<open>fetchDataByType\<close>, one per enabled source. They are run in the order of
  the sources; each reads and writes only the cache entry of its own key.
\<close>

fun fetch_each ::
  "CacheEntry storage_env \<Rightarrow> registry \<Rightarrow> int \<Rightarrow> SourceConfig list \<Rightarrow> fetcher_state
     \<Rightarrow> FeedItem list list \<times> fetcher_state" where
  "fetch_each env sources now [] st = ([], st)"
| "fetch_each env sources now (src # rest) st =
     (case fetchDataByType env sources now src st of
        (r, st1) \<Rightarrow> (case fetch_each env sources now rest st1 of (rs, st2) \<Rightarrow> (r # rs, st2)))"

definition stamp :: "SourceConfig \<Rightarrow> FeedItem list \<Rightarrow> FeedItem list" where
  "stamp src its = map (\<lambda>item. item\<lparr>isPinned := src_isPinned src\<rparr>) its"

text \<open>
  \<open>fetchAllData\<close>. No call of \<open>fetchDataByType\<close> rejects, so every settled result is
  fulfilled and the branch that logs a rejected one is never taken.
\<close>

definition fetchAllData ::
  "runtime \<Rightarrow> CacheEntry storage_env \<Rightarrow> registry \<Rightarrow> int \<Rightarrow> SourceConfig list \<Rightarrow> fetcher_state
     \<Rightarrow> FeedItem list \<times> fetcher_state" where
  "fetchAllData rt env sources now srcs st =
     (let enabledSources = filter enabled srcs in
      case fetch_each env sources now enabledSources st of
        (results, st1) \<Rightarrow>
          (Array_sort (compare_items rt) (concat (map2 stamp enabledSources results)), st1))"

section \<open>sources/base/BaseSource.ts: shared helpers\<close>




definition is_digit :: "char \<Rightarrow> bool" where
  "is_digit c = (c \<in> set ''0123456789'')"

definition digit_value :: "char \<Rightarrow> nat" where
  "digit_value c = of_char c - 48"















section \<open>sources/HackerNewsSource.ts\<close>










section \<open>sources/RSSSource.ts\<close>

text \<open>The class \<open>RSSSource\<close>, in \<^verbatim>\<open>unnamed/part_004\<close> of the sources.\<close>


record AtomEntry =
  atom_title :: string
  atom_link :: string
  atom_summary :: string
  published :: "string option"
  updated :: "string option"


record entry_fields =
  e_title :: string
  e_link :: string
  e_description :: string
  e_pubDate :: string






definition rss_feed_item :: "runtime \<Rightarrow> string \<Rightarrow> string option \<Rightarrow> nat \<Rightarrow> entry_fields \<Rightarrow> int \<Rightarrow> FeedItem" where
  "rss_feed_item rt feedUrl srcName index e t =
     \<lparr>item_id = ''rss-'' @ feedUrl @ ''-'' @ decimal index,
      title = e_title e,
      source = ''RSS'',
      sourceName = srcName,
      url = e_link e,
      summary = Some (take 200 (e_description e)),
      publishedAt = Some (PString (toISOString rt t)),
      tags = None, aiSummary = None, score = None, author = None,
      commentCount = None, upvotes = None, isPinned = None\<rparr>"







section \<open>services/storage.ts\<close>

text \<open>The storage service, in \<^verbatim>\<open>unnamed/part_006\<close> of the sources.\<close>

text \<open>
  The two keys of the key-value store that export and import touch,
  \<open>infotrend_config\<close> and \<open>infotrend_feeds\<close>; \<open>None\<close> is an absent key. The store holds
  whatever was written: \<open>'c\<close> and \<open>'f\<close> are the types of the values at the two keys.
\<close>

record ('c, 'f) local_storage =
  infotrend_config :: "'c option"
  infotrend_feeds :: "'f option"

definition getConfig :: "'c \<Rightarrow> ('c, 'f) local_storage \<Rightarrow> 'c" where
  "getConfig defaultConfig st = (case infotrend_config st of None \<Rightarrow> defaultConfig | Some c \<Rightarrow> c)"

definition saveConfig ::
  "'c storage_env \<Rightarrow> 'c \<Rightarrow> ('c, 'f) local_storage \<Rightarrow> js_error + ('c, 'f) local_storage" where
  "saveConfig env c st =
     safeStorageSet env ''infotrend_config'' c (\<lambda>s. s\<lparr>infotrend_config := Some c\<rparr>) st"

definition getFeeds :: "('c, FeedItem list) local_storage \<Rightarrow> FeedItem list" where
  "getFeeds st = (case infotrend_feeds st of None \<Rightarrow> [] | Some fs \<Rightarrow> fs)"

definition saveFeeds ::
  "'f storage_env \<Rightarrow> 'f \<Rightarrow> ('c, 'f) local_storage \<Rightarrow> js_error + ('c, 'f) local_storage" where
  "saveFeeds env fs st =
     safeStorageSet env ''infotrend_feeds'' fs (\<lambda>s. s\<lparr>infotrend_feeds := Some fs\<rparr>) st"

datatype data_format = JSON | CSV

text \<open>\<open>s.replace(/"/g, '""')\<close> and \<open>xs.join(sep)\<close>.\<close>

definition dquote :: char where
  "dquote = CHR 0x22"

definition double_quotes :: "string \<Rightarrow> string" where
  "double_quotes s = concat (map (\<lambda>c. if c = dquote then [dquote, dquote] else [c]) s)"

definition quoted :: "string \<Rightarrow> string" where
  "quoted s = [dquote] @ s @ [dquote]"

fun join :: "string \<Rightarrow> string list \<Rightarrow> string" where
  "join sep [] = []"
| "join sep [x] = x"
| "join sep (x # y # ys) = x @ sep @ join sep (y # ys)"

definition or_empty :: "string option \<Rightarrow> string" where
  "or_empty v = (if truthy_string v then the v else [])"

text \<open>
  \<open>dateStr\<close> of one item: the string itself, else \<open>feed.publishedAt.toISOString()\<close>,
  which throws on \<open>undefined\<close> and on an invalid date.
\<close>

definition dateStr :: "runtime \<Rightarrow> FeedItem \<Rightarrow> js_error + string" where
  "dateStr rt feed =
     (case publishedAt feed of
        Some (PString s) \<Rightarrow> Inr s
      | Some (PDate (Some t)) \<Rightarrow> Inr (toISOString rt t)
      | Some (PDate None) \<Rightarrow> Inl (RangeError ''Invalid time value'')
      | None \<Rightarrow> Inl (TypeError ''Cannot read properties of undefined (reading toISOString)''))"

definition csv_row :: "runtime \<Rightarrow> FeedItem \<Rightarrow> js_error + string" where
  "csv_row rt feed =
     (case dateStr rt feed of
        Inl e \<Rightarrow> Inl e
      | Inr d \<Rightarrow>
          Inr (join '',''
                 [item_id feed,
                  quoted (double_quotes (title feed)),
                  source feed,
                  url feed,
                  quoted (double_quotes (or_empty (summary feed))),
                  d,
                  quoted (join '','' (case tags feed of None \<Rightarrow> [] | Some ts \<Rightarrow> ts)),
                  quoted (double_quotes (or_empty (aiSummary feed)))]))"

text \<open>\<open>feeds.map(...)\<close> with a callback that may throw: the first exception ends it.\<close>

fun map_throwing :: "('a \<Rightarrow> js_error + 'b) \<Rightarrow> 'a list \<Rightarrow> js_error + 'b list" where
  "map_throwing f [] = Inr []"
| "map_throwing f (x # xs) =
     (case f x of
        Inl e \<Rightarrow> Inl e
      | Inr y \<Rightarrow> (case map_throwing f xs of Inl e \<Rightarrow> Inl e | Inr ys \<Rightarrow> Inr (y # ys)))"

definition csv_headers :: "string list" where
  "csv_headers = [''id'', ''title'', ''source'', ''url'', ''summary'', ''publishedAt'', ''tags'', ''aiSummary'']"

text \<open>
  \<open>exportData\<close>; \<open>stringify\<close> stands for \<open>JSON.stringify(\<dots>, null, 2)\<close> of the
  configuration and the feeds.
\<close>

definition exportData ::
  "runtime \<Rightarrow> ('c \<Rightarrow> FeedItem list \<Rightarrow> string) \<Rightarrow> 'c \<Rightarrow> ('c, FeedItem list) local_storage
     \<Rightarrow> data_format \<Rightarrow> js_error + string" where
  "exportData rt stringify defaultConfig st format =
     (let config = getConfig defaultConfig st; feeds = getFeeds st in
      if format = JSON then Inr (stringify config feeds)
      else
        (case map_throwing (csv_row rt) feeds of
           Inl e \<Rightarrow> Inl e
         | Inr rows \<Rightarrow> Inr (join [CHR 0x0A] (join '','' csv_headers # rows))))"

text \<open>
  Reading a property of a parsed JSON value: \<open>null\<close> has none and the access throws; an
  object gives the member or \<open>undefined\<close>; any other parsed value has neither \<open>config\<close>
  nor \<open>feeds\<close>.
\<close>

definition get_property :: "js_value \<Rightarrow> string \<Rightarrow> js_error + js_value" where
  "get_property v k =
     (case v of
        JNull \<Rightarrow> Inl (TypeError (''Cannot read properties of null (reading '' @ k @ '')''))
      | JUndefined \<Rightarrow> Inl (TypeError (''Cannot read properties of undefined (reading '' @ k @ '')''))
      | JObj kvs \<Rightarrow> Inr (case map_of kvs k of None \<Rightarrow> JUndefined | Some x \<Rightarrow> x)
      | _ \<Rightarrow> Inr JUndefined)"

text \<open>
  The body of the \<open>try\<close> of \<open>importData\<close> for the JSON format: the exception or the
  returned flag, with the store as the statements run so far have left it.
\<close>

definition importData_try ::
  "js_value storage_env \<Rightarrow> (string \<Rightarrow> js_error + js_value) \<Rightarrow> string
     \<Rightarrow> (js_value, js_value) local_storage
     \<Rightarrow> (js_error + bool) \<times> (js_value, js_value) local_storage" where
  "importData_try env JSON_parse data st =
     (case JSON_parse data of
        Inl e \<Rightarrow> (Inl e, st)
      | Inr imported \<Rightarrow>
          (case get_property imported ''config'' of
             Inl e \<Rightarrow> (Inl e, st)
           | Inr c \<Rightarrow>
               (case (if \<not> falsy c then saveConfig env c st else Inr st) of
                  Inl e \<Rightarrow> (Inl e, st)
                | Inr st1 \<Rightarrow>
                    (case get_property imported ''feeds'' of
                       Inl e \<Rightarrow> (Inl e, st1)
                     | Inr f \<Rightarrow>
                         (case (if \<not> falsy f then saveFeeds env f st1 else Inr st1) of
                            Inl e \<Rightarrow> (Inl e, st1)
                          | Inr st2 \<Rightarrow> (Inr True, st2))))))"

definition importData ::
  "js_value storage_env \<Rightarrow> (string \<Rightarrow> js_error + js_value) \<Rightarrow> string \<Rightarrow> data_format
     \<Rightarrow> (js_value, js_value) local_storage \<Rightarrow> bool \<times> (js_value, js_value) local_storage" where
  "importData env JSON_parse data format st =
     (if format = JSON then
        (case importData_try env JSON_parse data st of
           (Inr b, st1) \<Rightarrow> (b, st1)
         | (Inl error, st1) \<Rightarrow> (False, st1))
      else (False, st))"

section \<open>The runtime of the worked examples\<close>

text \<open>
  The theorems below hold for every runtime. Where one is evaluated on concrete data,
  the runtime is this one: \<open>toISOString\<close> as the language defines it
  (\<open>YYYY-MM-DDTHH:mm:ss.sssZ\<close>, six signed year digits outside 0..9999), and a
  \<open>Date.parse\<close> that reads exactly the four-digit-year form of that format and answers
  \<open>NaN\<close> for any other text.
\<close>

definition civil_from_days :: "int \<Rightarrow> int \<times> int \<times> int" where
  "civil_from_days z0 =
     (let z = z0 + 719468;
          era = z div 146097;
          doe = z - era * 146097;
          yoe = (doe - doe div 1460 + doe div 36524 - doe div 146096) div 365;
          doy = doe - (365 * yoe + yoe div 4 - yoe div 100);
          mp = (5 * doy + 2) div 153;
          d = doy - (153 * mp + 2) div 5 + 1;
          m = (if mp < 10 then mp + 3 else mp - 9);
          y = yoe + era * 400
      in (if m \<le> 2 then y + 1 else y, m, d))"

definition days_from_civil :: "int \<Rightarrow> int \<Rightarrow> int \<Rightarrow> int" where
  "days_from_civil y m d =
     (let y1 = (if m \<le> 2 then y - 1 else y);
          era = y1 div 400;
          yoe = y1 - era * 400;
          doy = (153 * (if m > 2 then m - 3 else m + 9) + 2) div 5 + d - 1;
          doe = yoe * 365 + yoe div 4 - yoe div 100 + doy
      in era * 146097 + doe - 719468)"

definition pad_int :: "nat \<Rightarrow> int \<Rightarrow> string" where
  "pad_int n i = padStart n CHR ''0'' (decimal (nat i))"

definition iso_year :: "int \<Rightarrow> string" where
  "iso_year y =
     (if 0 \<le> y \<and> y \<le> 9999 then pad_int 4 y
      else if y < 0 then CHR ''-'' # pad_int 6 (- y)
      else CHR ''+'' # pad_int 6 y)"

definition iso_toISOString :: "int \<Rightarrow> string" where
  "iso_toISOString t =
     (let days = t div 86400000;
          ms = t mod 86400000
      in case civil_from_days days of
           (y, m, d) \<Rightarrow>
             iso_year y @ ''-'' @ pad_int 2 m @ ''-'' @ pad_int 2 d @ ''T''
               @ pad_int 2 (ms div 3600000) @ '':'' @ pad_int 2 (ms div 60000 mod 60) @ '':''
               @ pad_int 2 (ms div 1000 mod 60) @ ''.'' @ pad_int 3 (ms mod 1000) @ ''Z'')"

definition number_at :: "string \<Rightarrow> nat \<Rightarrow> nat \<Rightarrow> int option" where
  "number_at s from len =
     (let ds = take len (drop from s) in
      if length ds = len \<and> list_all is_digit ds
      then Some (int (foldl (\<lambda>a c. 10 * a + digit_value c) 0 ds))
      else None)"

definition days_in_month :: "int \<Rightarrow> int \<Rightarrow> int" where
  "days_in_month y m =
     (if m = 2 then (if y mod 4 = 0 \<and> (y mod 100 \<noteq> 0 \<or> y mod 400 = 0) then 29 else 28)
      else if m = 4 \<or> m = 6 \<or> m = 9 \<or> m = 11 then 30 else 31)"

definition iso_Date_parse :: "string \<Rightarrow> int option" where
  "iso_Date_parse s =
     (case (number_at s 0 4, number_at s 5 2, number_at s 8 2, number_at s 11 2,
            number_at s 14 2, number_at s 17 2, number_at s 20 3) of
        (Some y, Some m, Some d, Some hh, Some mi, Some ss, Some ms) \<Rightarrow>
          if length s = 24 \<and> s ! 4 = CHR ''-'' \<and> s ! 7 = CHR ''-'' \<and> s ! 10 = CHR ''T''
             \<and> s ! 13 = CHR '':'' \<and> s ! 16 = CHR '':'' \<and> s ! 19 = CHR ''.'' \<and> s ! 23 = CHR ''Z''
             \<and> 1 \<le> m \<and> m \<le> 12 \<and> 1 \<le> d \<and> d \<le> days_in_month y m
             \<and> hh < 24 \<and> mi < 60 \<and> ss < 60
          then Some (days_from_civil y m d * 86400000 + hh * 3600000 + mi * 60000 + ss * 1000 + ms)
          else None
      | _ \<Rightarrow> None)"

definition iso_runtime :: runtime where
  "iso_runtime = \<lparr>Date_parse = iso_Date_parse, toISOString = iso_toISOString\<rparr>"

text \<open>
  \<open>JSON.parse\<close> for the worked examples of import: the documents of a table parse to
  the value listed with them, any other text is a syntax error.
\<close>

definition parse_listed :: "(string \<times> js_value) list \<Rightarrow> string \<Rightarrow> js_error + js_value" where
  "parse_listed table data =
     (case map_of table data of
        None \<Rightarrow> Inl (SyntaxError ''Unexpected token'')
      | Some v \<Rightarrow> Inr v)"

text \<open>
  Adapters and items of the worked examples: an adapter whose \<open>fetch\<close> returns given
  items, one whose \<open>fetch\<close> throws, and an item with the required fields and a
  publication date only.
\<close>

definition returning :: "FeedItem list \<Rightarrow> adapter" where
  "returning its options = Inr its"

definition throwing :: "js_error \<Rightarrow> adapter" where
  "throwing e options = Inl e"

definition plain_item :: "string \<Rightarrow> string \<Rightarrow> published option \<Rightarrow> FeedItem" where
  "plain_item i src p =
     \<lparr>item_id = i, title = i, source = src, sourceName = None, url = ''https://example.org/'' @ i,
      summary = None, publishedAt = p, tags = None, aiSummary = None, score = None,
      author = None, commentCount = None, upvotes = None, isPinned = None\<rparr>"

definition plain_source :: "string \<Rightarrow> string \<Rightarrow> bool option \<Rightarrow> SourceConfig" where
  "plain_source i ty pinned =
     \<lparr>src_id = i, src_type = ty, src_url = None, enabled = True, name = ty, fetchCount = 10,
      fetchTimeRange = None, src_minScore = None, src_isPinned = pinned\<rparr>"





text \<open>
  Documents of the worked examples of import, with the values \<open>JSON.parse\<close> gives for
  them: an export with both members,
  \<^verbatim>\<open>{"config":{"theme":"dark"},"feeds":[{"id":"new"}]}\<close>, and a document with the
  configuration only, \<^verbatim>\<open>{"config":{"theme":"dark"}}\<close>.
\<close>

definition full_document :: string where
  "full_document =
     ''{'' @ quoted ''config'' @ '':{'' @ quoted ''theme'' @ '':'' @ quoted ''dark'' @ ''},''
       @ quoted ''feeds'' @ '':[{'' @ quoted ''id'' @ '':'' @ quoted ''new'' @ ''}]}''"

definition full_value :: js_value where
  "full_value =
     JObj [(''config'', JObj [(''theme'', JStr ''dark'')]),
           (''feeds'', JArr [JObj [(''id'', JStr ''new'')]])]"

definition config_only_document :: string where
  "config_only_document =
     ''{'' @ quoted ''config'' @ '':{'' @ quoted ''theme'' @ '':'' @ quoted ''dark'' @ ''}}''"

definition config_only_value :: js_value where
  "config_only_value = JObj [(''config'', JObj [(''theme'', JStr ''dark'')])]"

definition example_parse :: "string \<Rightarrow> js_error + js_value" where
  "example_parse =
     parse_listed [(full_document, full_value), (config_only_document, config_only_value),
                   (''null'', JNull)]"

definition stored_before :: "(js_value, js_value) local_storage" where
  "stored_before =
     \<lparr>infotrend_config = Some (JObj [(''theme'', JStr ''light'')]),
      infotrend_feeds = Some (JArr [JObj [(''id'', JStr ''old'')]])\<rparr>"

text \<open>
  Stores of the worked examples: the extension's store with room for every write, and
  the development fallback (\<open>localStorage\<close>) with no room left for a write to one key.
\<close>

definition roomy_store :: "'v storage_env" where
  "roomy_store = \<lparr>isChromeExtension = True, accepts = (\<lambda>key v. True)\<rparr>"

definition full_localStorage_for :: "string \<Rightarrow> 'v storage_env" where
  "full_localStorage_for refused = \<lparr>isChromeExtension = False, accepts = (\<lambda>key v. key \<noteq> refused)\<rparr>"

section \<open>Properties of the utilities\<close>

text \<open>
  C8. \<open>ensureArray\<close> wraps a lone value and leaves an array as it is, but its guard
  \<open>if (!value) return []\<close> answers the empty array for every falsy value, not only for
  \<open>undefined\<close>: the number \<open>0\<close> and the empty string are scalars \<open>x\<close> for which the result
  is not \<open>[x]\<close>.
\<close>

theorem ensureArray_falsy_counterexample:
  "ensureArray (JNum (Fin 0)) = [] \<and> ensureArray (JNum (Fin 0)) \<noteq> [JNum (Fin 0)]
   \<and> ensureArray (JStr []) = [] \<and> ensureArray (JStr []) \<noteq> [JStr []]"
  by simp

text \<open>
  C8, as the code has it: \<open>ensureArray(undefined)\<close> is \<open>[]\<close>, and so is \<open>ensureArray(x)\<close>
  for every falsy \<open>x\<close> (\<open>null\<close>, \<open>false\<close>, \<open>0\<close>, \<open>NaN\<close>, the empty string); for every truthy
  value \<open>x\<close> that is not an array \<open>ensureArray(x)\<close> is \<open>[x]\<close>; an array is returned as it
  is.
\<close>

theorem ensureArray_cases:
  "ensureArray JUndefined = []
   \<and> (falsy x \<longrightarrow> ensureArray x = [])
   \<and> (\<not> falsy x \<and> \<not> isArray x \<longrightarrow> ensureArray x = [x])
   \<and> ensureArray (JArr a) = a"
  by (cases x) auto

theorem ensureArray_cases_witness:
  "falsy (JBool False) \<and> ensureArray (JBool False) = []
   \<and> \<not> falsy (JStr ''item'') \<and> \<not> isArray (JStr ''item'') \<and> ensureArray (JStr ''item'') = [JStr ''item'']
   \<and> ensureArray (JArr [JStr ''a'', JStr ''b'']) = [JStr ''a'', JStr ''b'']"
  using ensureArray_cases [of "JBool False" "[JStr ''a'', JStr ''b'']"]
        ensureArray_cases [of "JStr ''item''" "[]"]
  by simp

section \<open>Properties of the freshness policy\<close>




section \<open>Properties of the registry\<close>

lemma fetchFrom_fulfilled:
  "fst (fetchFrom sources n options) =
     Inr (case sources n of None \<Rightarrow> [] | Some src \<Rightarrow> (case src options of Inl e \<Rightarrow> [] | Inr its \<Rightarrow> its))"
  by (simp add: fetchFrom_def split: option.split sum.split)

lemma fetchFrom_log:
  "map fst (snd (fetchFrom sources n options)) =
     (if (case sources n of None \<Rightarrow> True | Some src \<Rightarrow> isl (src options)) then [LOG_ERROR] else [])"
  by (simp add: fetchFrom_def split: option.split sum.split)

text \<open>
  C3. \<open>fetchFromMany\<close> never raises, for any names and any adapters: it is fulfilled
  with the concatenation, in the order of the names, of what each name contributes,
  where an unregistered name and a name whose adapter throws contribute nothing; every
  such name leaves one error line on the console and no other line is written. In
  particular, with \<open>A\<close> returning two items and \<open>B\<close> throwing,
  \<open>fetchFromMany(["A","B"])\<close> is exactly the two items of \<open>A\<close>.
\<close>

theorem fetchFromMany_never_raises:
  "fst (fetchFromMany sources names options) =
     Inr (concat (map (\<lambda>n. case sources n of None \<Rightarrow> []
                           | Some src \<Rightarrow> (case src options of Inl e \<Rightarrow> [] | Inr its \<Rightarrow> its)) names))
   \<and> map fst (snd (fetchFromMany sources names options)) =
       replicate (length (filter (\<lambda>n. case sources n of None \<Rightarrow> True | Some src \<Rightarrow> isl (src options)) names))
         LOG_ERROR
   \<and> (sources ''A'' = Some a \<and> a options = Inr [x, y] \<and> sources ''B'' = Some b \<and> b options = Inl e
        \<longrightarrow> fst (fetchFromMany sources [''A'', ''B''] options) = Inr [x, y])"
proof (intro conjI impI)
  have contrib: "settled_value (fst (fetchFrom sources n options)) =
      (case sources n of None \<Rightarrow> [] | Some src \<Rightarrow> (case src options of Inl e \<Rightarrow> [] | Inr its \<Rightarrow> its))" for n
    by (simp add: fetchFrom_fulfilled settled_value_def)
  show "fst (fetchFromMany sources names options) =
     Inr (concat (map (\<lambda>n. case sources n of None \<Rightarrow> []
                           | Some src \<Rightarrow> (case src options of Inl e \<Rightarrow> [] | Inr its \<Rightarrow> its)) names))"
    by (simp add: fetchFromMany_def Let_def comp_def contrib)
  show "map fst (snd (fetchFromMany sources names options)) =
       replicate (length (filter (\<lambda>n. case sources n of None \<Rightarrow> True | Some src \<Rightarrow> isl (src options)) names))
         LOG_ERROR"
  proof (induction names)
    case Nil
    show ?case by (simp add: fetchFromMany_def)
  next
    case (Cons n ns)
    have "map fst (snd (fetchFromMany sources (n # ns) options)) =
          map fst (snd (fetchFrom sources n options)) @ map fst (snd (fetchFromMany sources ns options))"
      by (simp add: fetchFromMany_def Let_def)
    with Cons show ?case by (simp add: fetchFrom_log)
  qed
  assume "sources ''A'' = Some a \<and> a options = Inr [x, y] \<and> sources ''B'' = Some b \<and> b options = Inl e"
  then show "fst (fetchFromMany sources [''A'', ''B''] options) = Inr [x, y]"
    by (simp add: fetchFromMany_def Let_def contrib)
qed

theorem fetchFromMany_never_raises_witness:
  "fetchFromMany [''A'' \<mapsto> returning [plain_item ''a1'' ''A'' None, plain_item ''a2'' ''A'' None],
                  ''B'' \<mapsto> throwing (Error ''boom'')] [''A'', ''B''] None
     = (Inr [plain_item ''a1'' ''A'' None, plain_item ''a2'' ''A'' None],
        [(LOG_ERROR, ''Error fetching from B:'')])"
proof -
  let ?reg = "[''A'' \<mapsto> returning [plain_item ''a1'' ''A'' None, plain_item ''a2'' ''A'' None],
               ''B'' \<mapsto> throwing (Error ''boom'')]"
  have h: "?reg ''A'' = Some (returning [plain_item ''a1'' ''A'' None, plain_item ''a2'' ''A'' None])
        \<and> returning [plain_item ''a1'' ''A'' None, plain_item ''a2'' ''A'' None] None
            = Inr [plain_item ''a1'' ''A'' None, plain_item ''a2'' ''A'' None]
        \<and> ?reg ''B'' = Some (throwing (Error ''boom'')) \<and> throwing (Error ''boom'') None = Inl (Error ''boom'')"
    by (simp add: returning_def throwing_def)
  have l: "snd (fetchFromMany ?reg [''A'', ''B''] None) = [(LOG_ERROR, ''Error fetching from B:'')]"
    by (simp add: fetchFromMany_def fetchFrom_def returning_def throwing_def)
  from fetchFromMany_never_raises [of ?reg "[''A'', ''B'']" None
        "returning [plain_item ''a1'' ''A'' None, plain_item ''a2'' ''A'' None]"
        "plain_item ''a1'' ''A'' None" "plain_item ''a2'' ''A'' None" "throwing (Error ''boom'')" "Error ''boom''"] h
  have "fst (fetchFromMany ?reg [''A'', ''B''] None) = Inr [plain_item ''a1'' ''A'' None, plain_item ''a2'' ''A'' None]"
    by blast
  with l show ?thesis by (simp add: prod_eq_iff)
qed

section \<open>Properties of the aggregator\<close>

lemma fetchDataByType_adapter_throws:
  assumes "sources (src_type src) = Some a" and "a (Some (mapSourceConfigToOptions src)) = Inl e"
    and "forceRefresh st \<or>
         (case storage st (cacheKey src) of None \<Rightarrow> True | Some c \<Rightarrow> \<not> now - timestamp c < CACHE_DURATION)"
    and "accepts env (cacheKey src) \<lparr>items = [], timestamp = now\<rparr>"
  shows "fst (fetchDataByType env sources now src st) = []"
    and "storage (snd (fetchDataByType env sources now src st)) (cacheKey src)
           = Some \<lparr>items = [], timestamp = now\<rparr>"
  using assms
  by (auto simp: fetchDataByType_def fetchDataByType_try_def fetchFrom_def has_def saveCache_def
                 safeStorageSet_def Let_def split: option.splits)

text \<open>
  The \<open>catch\<close> of \<open>fetchDataByType\<close> is entered when the write of a fetched result
  throws, and then the cached items are returned in place of the fetched ones.
\<close>

lemma fetchDataByType_write_throws:
  assumes "sources (src_type src) = Some a" and "a (Some (mapSourceConfigToOptions src)) = Inr its"
    and "forceRefresh st \<or>
         (case storage st (cacheKey src) of None \<Rightarrow> True | Some c \<Rightarrow> \<not> now - timestamp c < CACHE_DURATION)"
    and "\<not> isChromeExtension env" and "\<not> accepts env (cacheKey src) \<lparr>items = its, timestamp = now\<rparr>"
  shows "fst (fetchDataByType env sources now src st) = cached_items (storage st (cacheKey src))"
    and "storage (snd (fetchDataByType env sources now src st)) = storage st"
  using assms
  by (auto simp: fetchDataByType_def fetchDataByType_try_def fetchFrom_def has_def saveCache_def
                 safeStorageSet_def Let_def split: option.splits)

text \<open>
  C2 says that a source whose adapter fails contributes its last cached items and keeps
  its cache entry. The code at such an input: the source \<open>hacker-news\<close> holds one cached
  item, written at time 0; at time 2000000 (the entry is older than 30 minutes) its
  adapter throws, and the store has room for every write. \<open>fetchFrom\<close> turns the
  exception into an empty result, so the \<open>catch\<close> of \<open>fetchDataByType\<close> is not entered:
  the call returns no item, and the cache entry is replaced by an empty one stamped with
  the time of the failure.
\<close>

theorem fetchDataByType_failure_overwrites_cache:
  "(let cached = plain_item ''hackernews-1'' ''HackerNews'' (Some (PString ''2024-01-01T00:00:00.000Z''));
        st = \<lparr>storage = [''cache_hacker-news'' \<mapsto> \<lparr>items = [cached], timestamp = 0\<rparr>],
              forceRefresh = False, console = []\<rparr>;
        src = plain_source ''hacker-news'' ''HackerNews'' None;
        r = fetchDataByType roomy_store [''HackerNews'' \<mapsto> throwing (Error ''network'')] 2000000 src st
    in cached_items (storage st (cacheKey src)) = [cached]
       \<and> fst r = []
       \<and> storage (snd r) (cacheKey src) = Some \<lparr>items = [], timestamp = 2000000\<rparr>
       \<and> console (snd r) = [(LOG_ERROR, ''Error fetching from HackerNews:'')])"
  by (simp add: fetchDataByType_def fetchDataByType_try_def fetchFrom_def cacheKey_def cached_items_def
                plain_source_def throwing_def has_def CACHE_DURATION_def saveCache_def
                safeStorageSet_def roomy_store_def Let_def)

text \<open>
  The sort returns a permutation of its input, and for a comparefn that is a consistent
  order on the input the result is in order: no element comes before one placed ahead
  of it.
\<close>

lemma set_insert_pivot [simp]: "set (insert_pivot cmp p es) = insert p (set es)"
  by (induction es) auto

lemma mset_insert_pivot [simp]: "mset (insert_pivot cmp p es) = add_mset p (mset es)"
  by (induction es) auto

lemma mset_foldl_insert_pivot:
  "mset (foldl (\<lambda>sorted pivot. insert_pivot cmp pivot sorted) acc xs) = mset acc + mset xs"
  by (induction xs arbitrary: acc) auto

lemma mset_Array_sort [simp]: "mset (Array_sort cmp xs) = mset xs"
  by (simp add: Array_sort_def mset_foldl_insert_pivot)

lemma set_Array_sort [simp]: "set (Array_sort cmp xs) = set xs"
proof -
  have "set_mset (mset (Array_sort cmp xs)) = set_mset (mset xs)" by simp
  then show ?thesis by (simp only: set_mset_mset)
qed

lemma consistent_asym:
  "consistent_on A cmp \<Longrightarrow> x \<in> A \<Longrightarrow> y \<in> A \<Longrightarrow> cmp x y < 0 \<Longrightarrow> \<not> cmp y x < 0"
  unfolding consistent_on_def by blast

lemma consistent_trans:
  "consistent_on A cmp \<Longrightarrow> x \<in> A \<Longrightarrow> y \<in> A \<Longrightarrow> z \<in> A \<Longrightarrow>
     \<not> cmp x y < 0 \<Longrightarrow> \<not> cmp y z < 0 \<Longrightarrow> \<not> cmp x z < 0"
  unfolding consistent_on_def by blast

lemma sorted_insert_pivot:
  assumes c: "consistent_on A cmp" and p: "p \<in> A"
  shows "set es \<subseteq> A \<Longrightarrow> sorted_wrt (\<lambda>x y. \<not> cmp x y < 0) es \<Longrightarrow>
     sorted_wrt (\<lambda>x y. \<not> cmp x y < 0) (insert_pivot cmp p es)"
proof (induction es)
  case Nil
  show ?case by simp
next
  case (Cons e es)
  from Cons.prems have e: "e \<in> A" and es: "set es \<subseteq> A"
    and le: "\<forall>y \<in> set es. \<not> cmp e y < 0" and s: "sorted_wrt (\<lambda>x y. \<not> cmp x y < 0) es"
    by simp_all
  show ?case
  proof (cases "cmp p e < 0")
    case True
    from consistent_asym [OF c p e True] have ep: "\<not> cmp e p < 0" .
    from Cons.IH [OF es s] have "sorted_wrt (\<lambda>x y. \<not> cmp x y < 0) (insert_pivot cmp p es)" .
    with True ep le show ?thesis by simp
  next
    case False
    have "\<not> cmp p y < 0" if "y \<in> set es" for y
    proof -
      from that es have y: "y \<in> A" by blast
      from that le have "\<not> cmp e y < 0" by blast
      from consistent_trans [OF c p e y False this] show ?thesis .
    qed
    with False le s show ?thesis by simp
  qed
qed

lemma sorted_foldl_insert_pivot:
  assumes c: "consistent_on A cmp"
  shows "set xs \<subseteq> A \<Longrightarrow> set acc \<subseteq> A \<Longrightarrow> sorted_wrt (\<lambda>x y. \<not> cmp x y < 0) acc \<Longrightarrow>
     sorted_wrt (\<lambda>x y. \<not> cmp x y < 0) (foldl (\<lambda>sorted pivot. insert_pivot cmp pivot sorted) acc xs)"
proof (induction xs arbitrary: acc)
  case Nil
  then show ?case by simp
next
  case (Cons x xs)
  from Cons.prems(1) have x: "x \<in> A" and xs: "set xs \<subseteq> A" by simp_all
  have 1: "sorted_wrt (\<lambda>x y. \<not> cmp x y < 0) (insert_pivot cmp x acc)"
    by (rule sorted_insert_pivot [OF c x Cons.prems(2) Cons.prems(3)])
  have 2: "set (insert_pivot cmp x acc) \<subseteq> A" using x Cons.prems(2) by simp
  from Cons.IH [OF xs 2 1] show ?case by simp
qed

lemma sorted_Array_sort:
  assumes "consistent_on (set xs) cmp"
  shows "sorted_wrt (\<lambda>a b. \<not> cmp b a < 0) (Array_sort cmp xs)"
proof -
  have "sorted_wrt (\<lambda>x y. \<not> cmp x y < 0) (foldl (\<lambda>sorted pivot. insert_pivot cmp pivot sorted) [] xs)"
    by (rule sorted_foldl_insert_pivot [OF assms]) simp_all
  then show ?thesis
    by (simp add: Array_sort_def sorted_wrt_rev)
qed

text \<open>
  When the unpinned enabled sources all carry the same \<open>isPinned\<close> value (all absent, or
  all \<open>false\<close>), the comparator of \<open>fetchAllData\<close> is a consistent order on the merged
  items, and the result is the stamped contributions of the enabled sources, pinned
  items first and most recent first among items of equal status.
\<close>

lemma compare_items_consistent:
  assumes "\<forall>x \<in> A. \<forall>y \<in> A. isPinned x \<noteq> Some True \<and> isPinned y \<noteq> Some True \<longrightarrow> isPinned x = isPinned y"
  shows "consistent_on A (compare_items rt)"
  unfolding consistent_on_def
proof (intro conjI ballI impI)
  fix x y
  assume "x \<in> A" "y \<in> A" "compare_items rt x y < 0"
  then show "\<not> compare_items rt y x < 0"
    by (auto simp: compare_items_def split: if_splits)
next
  fix x y z
  assume x: "x \<in> A" and y: "y \<in> A" and z: "z \<in> A"
  assume a: "\<not> compare_items rt x y < 0 \<and> \<not> compare_items rt y z < 0"
  from assms x y have xy: "isPinned x \<noteq> Some True \<and> isPinned y \<noteq> Some True \<longrightarrow> isPinned x = isPinned y" by blast
  from assms y z have yz: "isPinned y \<noteq> Some True \<and> isPinned z \<noteq> Some True \<longrightarrow> isPinned y = isPinned z" by blast
  from assms x z have xz: "isPinned x \<noteq> Some True \<and> isPinned z \<noteq> Some True \<longrightarrow> isPinned x = isPinned z" by blast
  show "\<not> compare_items rt x z < 0"
  proof (cases "isPinned x = Some True")
    case px: True
    show ?thesis
    proof (cases "isPinned y = Some True")
      case py: True
      show ?thesis
      proof (cases "isPinned z = Some True")
        case True
        with px py a show ?thesis by (simp add: compare_items_def)
      next
        case False
        with py a show ?thesis by (simp add: compare_items_def split: if_splits)
      qed
    next
      case False
      with px a show ?thesis by (simp add: compare_items_def split: if_splits)
    qed
  next
    case nx: False
    show ?thesis
    proof (cases "isPinned z = Some True")
      case True
      with nx show ?thesis by (simp add: compare_items_def)
    next
      case nz: False
      with nx xz have e: "isPinned x = isPinned z" by blast
      show ?thesis
      proof (cases "isPinned y = Some True")
        case True
        with nz a show ?thesis by (simp add: compare_items_def split: if_splits)
      next
        case False
        with nx nz xy yz have "isPinned x = isPinned y" "isPinned y = isPinned z" by blast+
        with a e show ?thesis by (simp add: compare_items_def)
      qed
    qed
  qed
qed

lemma stamped_flags:
  assumes "x \<in> set (concat (map2 stamp srcs results))"
  shows "\<exists>s \<in> set srcs. isPinned x = src_isPinned s"
proof -
  from assms obtain s r where "(s, r) \<in> set (zip srcs results)" and "x \<in> set (stamp s r)"
    by auto
  then have "s \<in> set srcs" and "isPinned x = src_isPinned s"
    by (auto simp: stamp_def dest: set_zip_leftD)
  then show ?thesis by blast
qed

lemma fetchAllData_result:
  "fst (fetchAllData rt env sources now srcs st) =
     Array_sort (compare_items rt)
       (concat (map2 stamp (filter enabled srcs) (fst (fetch_each env sources now (filter enabled srcs) st))))"
  by (simp add: fetchAllData_def Let_def split: prod.split)

lemma fetchAllData_sorted_uniform_flags:
  assumes "\<forall>s \<in> set srcs. \<forall>t \<in> set srcs.
             enabled s \<and> enabled t \<and> src_isPinned s \<noteq> Some True \<and> src_isPinned t \<noteq> Some True
               \<longrightarrow> src_isPinned s = src_isPinned t"
  shows "sorted_wrt
           (\<lambda>a b. (isPinned a = Some True \<and> isPinned b \<noteq> Some True)
                   \<or> (isPinned a = isPinned b \<and> getTime_or_0 rt b \<le> getTime_or_0 rt a))
           (fst (fetchAllData rt env sources now srcs st))"
    and "mset (fst (fetchAllData rt env sources now srcs st)) =
           mset (concat (map2 stamp (filter enabled srcs)
                   (fst (fetch_each env sources now (filter enabled srcs) st))))"
proof -
  let ?all = "concat (map2 stamp (filter enabled srcs) (fst (fetch_each env sources now (filter enabled srcs) st)))"
  have flags: "\<forall>x \<in> set ?all. \<forall>y \<in> set ?all.
      isPinned x \<noteq> Some True \<and> isPinned y \<noteq> Some True \<longrightarrow> isPinned x = isPinned y"
  proof (intro ballI impI)
    fix x y assume "x \<in> set ?all" "y \<in> set ?all"
    then obtain s t where "s \<in> set (filter enabled srcs)" "isPinned x = src_isPinned s"
        "t \<in> set (filter enabled srcs)" "isPinned y = src_isPinned t"
      using stamped_flags by blast
    moreover assume "isPinned x \<noteq> Some True \<and> isPinned y \<noteq> Some True"
    ultimately show "isPinned x = isPinned y" using assms by auto
  qed
  have s: "sorted_wrt (\<lambda>a b. \<not> compare_items rt b a < 0) (Array_sort (compare_items rt) ?all)"
    by (rule sorted_Array_sort [OF compare_items_consistent [OF flags]])
  have "sorted_wrt
           (\<lambda>a b. (isPinned a = Some True \<and> isPinned b \<noteq> Some True)
                   \<or> (isPinned a = isPinned b \<and> getTime_or_0 rt b \<le> getTime_or_0 rt a))
           (Array_sort (compare_items rt) ?all)"
  proof (rule sorted_wrt_mono_rel [OF _ s])
    fix a b
    assume "a \<in> set (Array_sort (compare_items rt) ?all)" "b \<in> set (Array_sort (compare_items rt) ?all)"
    then have "a \<in> set ?all" "b \<in> set ?all" by simp_all
    with flags have e: "isPinned a \<noteq> Some True \<and> isPinned b \<noteq> Some True \<longrightarrow> isPinned a = isPinned b"
      by blast
    assume "\<not> compare_items rt b a < 0"
    with e show "(isPinned a = Some True \<and> isPinned b \<noteq> Some True)
                   \<or> (isPinned a = isPinned b \<and> getTime_or_0 rt b \<le> getTime_or_0 rt a)"
      by (auto simp: compare_items_def split: if_splits)
  qed
  then show "sorted_wrt
           (\<lambda>a b. (isPinned a = Some True \<and> isPinned b \<noteq> Some True)
                   \<or> (isPinned a = isPinned b \<and> getTime_or_0 rt b \<le> getTime_or_0 rt a))
           (fst (fetchAllData rt env sources now srcs st))"
    by (simp only: fetchAllData_result)
  show "mset (fst (fetchAllData rt env sources now srcs st)) = mset ?all"
    by (simp only: fetchAllData_result mset_Array_sort)
qed

lemma compare_items_undefined_false:
  "isPinned a = None \<Longrightarrow> isPinned b = Some False \<Longrightarrow>
     compare_items rt a b = 1 \<and> compare_items rt b a = 1"
  by (simp add: compare_items_def)

text \<open>
  C4 says that the merged items come pinned first and, among items of equal pinned
  status, most recent first. The code at an input where it does not: two enabled
  sources, neither pinned, \<open>dev-to\<close> with \<open>isPinned\<close> absent (as in the default
  configuration) and \<open>hacker-news\<close> with \<open>isPinned: false\<close> (pinned once, then unpinned);
  the first contributes an item of 1 January 2024, the second an item of 2 January. The
  comparator tests \<open>a.isPinned !== b.isPinned\<close>, which holds for \<open>undefined\<close> against
  \<open>false\<close>, and then answers 1 whichever of the two items comes first. The result keeps
  the older item before the newer one.
\<close>

theorem fetchAllData_unpinned_not_by_recency:
  "(let older = plain_item ''devto-1'' ''DevTo'' (Some (PString ''2024-01-01T00:00:00.000Z''));
        newer = plain_item ''hackernews-2'' ''HackerNews'' (Some (PString ''2024-01-02T00:00:00.000Z''));
        out = fst (fetchAllData iso_runtime roomy_store
                [''DevTo'' \<mapsto> returning [older], ''HackerNews'' \<mapsto> returning [newer]]
                1704240000000
                [plain_source ''dev-to'' ''DevTo'' None, plain_source ''hacker-news'' ''HackerNews'' (Some False)]
                \<lparr>storage = Map.empty, forceRefresh = False, console = []\<rparr>)
    in out = [older\<lparr>isPinned := None\<rparr>, newer\<lparr>isPinned := Some False\<rparr>]
       \<and> map (getTime_or_0 iso_runtime) out = [1704067200000, 1704153600000]
       \<and> compare_items iso_runtime (newer\<lparr>isPinned := Some False\<rparr>) (older\<lparr>isPinned := None\<rparr>) = 1
       \<and> compare_items iso_runtime (older\<lparr>isPinned := None\<rparr>) (newer\<lparr>isPinned := Some False\<rparr>) = 1)"
  by code_simp


section \<open>Properties of the adapters\<close>






























lemma item_id_rss_feed_item [simp]:
  "item_id (rss_feed_item rt u sn i e t) = ''rss-'' @ u @ ''-'' @ decimal i"
  by (simp add: rss_feed_item_def)




section \<open>Properties of export and import\<close>

text \<open>
  C9 says that a successful import has applied both the configuration and the feed
  items, and that a failed one has changed nothing. The code at two inputs. A document
  that carries the configuration only, into a store with room: \<open>if (imported.feeds)\<close>
  skips the second write, the import reports success, and the store then holds the
  imported configuration next to the feeds it held before. And the full document,
  into a \<open>localStorage\<close> that has room for the configuration and none for the feeds:
  \<open>saveConfig\<close> has written when \<open>saveFeeds\<close> throws, the import reports failure, and
  the stored configuration is the imported one.
\<close>

theorem importData_not_atomic_counterexample:
  "importData roomy_store example_parse config_only_document JSON stored_before
     = (True, \<lparr>infotrend_config = Some (JObj [(''theme'', JStr ''dark'')]),
                infotrend_feeds = Some (JArr [JObj [(''id'', JStr ''old'')]])\<rparr>)
   \<and> get_property config_only_value ''feeds'' = Inr JUndefined
   \<and> importData (full_localStorage_for ''infotrend_feeds'') example_parse full_document JSON stored_before
     = (False, \<lparr>infotrend_config = Some (JObj [(''theme'', JStr ''dark'')]),
                 infotrend_feeds = Some (JArr [JObj [(''id'', JStr ''old'')]])\<rparr>)
   \<and> infotrend_config stored_before = Some (JObj [(''theme'', JStr ''light'')])"
  by code_simp

lemma importData_try_parsed:
  assumes "JSON_parse data = Inr v" and "get_property v ''config'' = Inr c"
    and "get_property v ''feeds'' = Inr f"
    and "\<not> falsy c \<longrightarrow> accepts env ''infotrend_config'' c"
    and "\<not> falsy f \<longrightarrow> accepts env ''infotrend_feeds'' f"
  shows "importData_try env JSON_parse data st =
     (Inr True, \<lparr>infotrend_config = (if falsy c then infotrend_config st else Some c),
                 infotrend_feeds = (if falsy f then infotrend_feeds st else Some f)\<rparr>)"
  using assms
  by (simp add: importData_try_def saveConfig_def saveFeeds_def safeStorageSet_def)

lemma get_property_total:
  "get_property v k = Inr c \<Longrightarrow> \<exists>f. get_property v k' = Inr f"
  by (cases v) (auto simp: get_property_def)

lemma importData_false_unchanged:
  assumes "\<forall>key v. accepts env key v"
    and "fst (importData env JSON_parse data format st) = False"
  shows "snd (importData env JSON_parse data format st) = st"
proof (cases "format = JSON")
  case False
  then show ?thesis by (simp add: importData_def)
next
  case True
  show ?thesis
  proof (cases "JSON_parse data")
    case (Inl e)
    with True show ?thesis by (simp add: importData_def importData_try_def)
  next
    case (Inr v)
    show ?thesis
    proof (cases "get_property v ''config''")
      case (Inl e)
      with True Inr show ?thesis by (simp add: importData_def importData_try_def)
    next
      case c: (Inr c)
      from get_property_total [OF c] obtain f where f: "get_property v ''feeds'' = Inr f" by blast
      from assms(1) have "\<not> falsy c \<longrightarrow> accepts env ''infotrend_config'' c"
        and "\<not> falsy f \<longrightarrow> accepts env ''infotrend_feeds'' f" by simp_all
      with True Inr c f have "fst (importData env JSON_parse data format st) = True"
        by (simp add: importData_def importData_try_parsed)
      with assms(2) show ?thesis by simp
    qed
  qed
qed

text \<open>
  C9, as the code has it. \<open>importData\<close> reports failure and leaves the store as it was
  when the format is not JSON, when \<open>JSON.parse\<close> throws and when the document is
  \<open>null\<close>. For any other document it writes the \<open>config\<close> member and then the \<open>feeds\<close>
  member, each only when its value is truthy, as two writes of their own; when the
  store takes these writes the import reports success, each member so written has
  replaced the stored one wholesale, and a part the document lacks (or carries with a
  falsy value) is as it was. With a store that takes every write, no failure is
  reported after a write.
\<close>

theorem importData_outcomes:
  "(format \<noteq> JSON \<longrightarrow> importData env JSON_parse data format st = (False, st))
   \<and> (\<forall>e. JSON_parse data = Inl e \<longrightarrow> importData env JSON_parse data JSON st = (False, st))
   \<and> (JSON_parse data = Inr JNull \<longrightarrow> importData env JSON_parse data JSON st = (False, st))
   \<and> (\<forall>v c f. JSON_parse data = Inr v \<and> get_property v ''config'' = Inr c
                \<and> get_property v ''feeds'' = Inr f
                \<and> (\<not> falsy c \<longrightarrow> accepts env ''infotrend_config'' c)
                \<and> (\<not> falsy f \<longrightarrow> accepts env ''infotrend_feeds'' f) \<longrightarrow>
          importData env JSON_parse data JSON st =
            (True, \<lparr>infotrend_config = (if falsy c then infotrend_config st else Some c),
                    infotrend_feeds = (if falsy f then infotrend_feeds st else Some f)\<rparr>))
   \<and> ((\<forall>key v. accepts env key v) \<and> fst (importData env JSON_parse data format st) = False \<longrightarrow>
          snd (importData env JSON_parse data format st) = st)"
proof (intro conjI allI impI)
  assume "format \<noteq> JSON"
  then show "importData env JSON_parse data format st = (False, st)"
    by (simp add: importData_def)
next
  fix e assume "JSON_parse data = Inl e"
  then show "importData env JSON_parse data JSON st = (False, st)"
    by (simp add: importData_def importData_try_def)
next
  assume "JSON_parse data = Inr JNull"
  then show "importData env JSON_parse data JSON st = (False, st)"
    by (simp add: importData_def importData_try_def get_property_def)
next
  fix v c f
  assume "JSON_parse data = Inr v \<and> get_property v ''config'' = Inr c
                \<and> get_property v ''feeds'' = Inr f
                \<and> (\<not> falsy c \<longrightarrow> accepts env ''infotrend_config'' c)
                \<and> (\<not> falsy f \<longrightarrow> accepts env ''infotrend_feeds'' f)"
  then show "importData env JSON_parse data JSON st =
            (True, \<lparr>infotrend_config = (if falsy c then infotrend_config st else Some c),
                    infotrend_feeds = (if falsy f then infotrend_feeds st else Some f)\<rparr>)"
    by (simp add: importData_def importData_try_parsed)
next
  assume "(\<forall>key v. accepts env key v) \<and> fst (importData env JSON_parse data format st) = False"
  then show "snd (importData env JSON_parse data format st) = st"
    using importData_false_unchanged by blast
qed

theorem importData_outcomes_witness:
  "example_parse full_document = Inr full_value
   \<and> get_property full_value ''config'' = Inr (JObj [(''theme'', JStr ''dark'')])
   \<and> get_property full_value ''feeds'' = Inr (JArr [JObj [(''id'', JStr ''new'')]])
   \<and> accepts (roomy_store :: js_value storage_env) ''infotrend_config'' (JObj [(''theme'', JStr ''dark'')])
   \<and> accepts (roomy_store :: js_value storage_env) ''infotrend_feeds'' (JArr [JObj [(''id'', JStr ''new'')]])
   \<and> importData roomy_store example_parse full_document JSON stored_before
       = (True, \<lparr>infotrend_config = Some (JObj [(''theme'', JStr ''dark'')]),
                  infotrend_feeds = Some (JArr [JObj [(''id'', JStr ''new'')]])\<rparr>)
   \<and> example_parse ''nonsense'' = Inl (SyntaxError ''Unexpected token'')
   \<and> importData roomy_store example_parse ''nonsense'' JSON stored_before = (False, stored_before)
   \<and> example_parse ''null'' = Inr JNull
   \<and> importData roomy_store example_parse ''null'' JSON stored_before = (False, stored_before)
   \<and> CSV \<noteq> JSON
   \<and> importData roomy_store example_parse full_document CSV stored_before = (False, stored_before)"
proof -
  let ?env = "roomy_store :: js_value storage_env"
  note full = importData_outcomes [where format = JSON and JSON_parse = example_parse
      and data = full_document and st = stored_before and env = ?env]
  note bad = importData_outcomes [where format = JSON and JSON_parse = example_parse
      and data = "''nonsense''" and st = stored_before and env = ?env]
  note nul = importData_outcomes [where format = JSON and JSON_parse = example_parse
      and data = "''null''" and st = stored_before and env = ?env]
  note csv = importData_outcomes [where format = CSV and JSON_parse = example_parse
      and data = full_document and st = stored_before and env = ?env]
  have p: "example_parse full_document = Inr full_value" by code_simp
  have c: "get_property full_value ''config'' = Inr (JObj [(''theme'', JStr ''dark'')])" by code_simp
  have f: "get_property full_value ''feeds'' = Inr (JArr [JObj [(''id'', JStr ''new'')]])" by code_simp
  have a1: "accepts ?env ''infotrend_config'' (JObj [(''theme'', JStr ''dark'')])"
    by (simp add: roomy_store_def)
  have a2: "accepts ?env ''infotrend_feeds'' (JArr [JObj [(''id'', JStr ''new'')]])"
    by (simp add: roomy_store_def)
  have t1: "\<not> falsy (JObj [(''theme'', JStr ''dark'')])" by simp
  have t2: "\<not> falsy (JArr [JObj [(''id'', JStr ''new'')]])" by simp
  from full p c f a1 a2 have "importData ?env example_parse full_document JSON stored_before
       = (True, \<lparr>infotrend_config = (if falsy (JObj [(''theme'', JStr ''dark'')]) then infotrend_config stored_before
                                      else Some (JObj [(''theme'', JStr ''dark'')])),
                  infotrend_feeds = (if falsy (JArr [JObj [(''id'', JStr ''new'')]]) then infotrend_feeds stored_before
                                     else Some (JArr [JObj [(''id'', JStr ''new'')]]))\<rparr>)"
    by blast
  with t1 t2 have r1: "importData ?env example_parse full_document JSON stored_before
       = (True, \<lparr>infotrend_config = Some (JObj [(''theme'', JStr ''dark'')]),
                  infotrend_feeds = Some (JArr [JObj [(''id'', JStr ''new'')]])\<rparr>)"
    by simp
  have q: "example_parse ''nonsense'' = Inl (SyntaxError ''Unexpected token'')" by code_simp
  from bad q have r2: "importData ?env example_parse ''nonsense'' JSON stored_before = (False, stored_before)"
    by blast
  have n: "example_parse ''null'' = Inr JNull" by code_simp
  from nul n have r3: "importData ?env example_parse ''null'' JSON stored_before = (False, stored_before)"
    by blast
  have d: "CSV \<noteq> JSON" by simp
  from csv d have r4: "importData ?env example_parse full_document CSV stored_before = (False, stored_before)"
    by blast
  from p c f a1 a2 r1 q r2 n r3 d r4 show ?thesis by (intro conjI)
qed

lemma csv_row_absent:
  "publishedAt f = None \<Longrightarrow> isl (csv_row rt f)"
  by (simp add: csv_row_def dateStr_def)

lemma map_throwing_absent:
  "f \<in> set feeds \<Longrightarrow> publishedAt f = None \<Longrightarrow> isl (map_throwing (csv_row rt) feeds)"
proof (induction feeds)
  case Nil
  then show ?case by simp
next
  case (Cons g feeds)
  show ?case
  proof (cases "csv_row rt g")
    case (Inl e)
    then show ?thesis by simp
  next
    case (Inr row)
    with Cons.prems csv_row_absent [of g rt] have "f \<in> set feeds" by auto
    with Cons.IH Cons.prems(2) have "isl (map_throwing (csv_row rt) feeds)" by simp
    with Inr show ?thesis by (cases "map_throwing (csv_row rt) feeds") simp_all
  qed
qed

lemma exportData_csv_throws:
  assumes "f \<in> set feeds" and "publishedAt f = None"
  shows "isl (exportData rt stringify defaultConfig
                \<lparr>infotrend_config = cfg, infotrend_feeds = Some feeds\<rparr> CSV)"
proof -
  from assms have "isl (map_throwing (csv_row rt) feeds)"
    by (rule map_throwing_absent)
  then show ?thesis
    by (cases "map_throwing (csv_row rt) feeds") (simp_all add: exportData_def getFeeds_def Let_def)
qed

lemma map_throwing_strings:
  "\<forall>f \<in> set feeds. \<exists>s. publishedAt f = Some (PString s) \<Longrightarrow>
     map_throwing (csv_row rt) feeds = Inr (map (\<lambda>f. projr (csv_row rt f)) feeds)"
  by (induction feeds) (auto simp: csv_row_def dateStr_def)

lemma exportData_csv_rows:
  assumes "\<forall>f \<in> set feeds. \<exists>s. publishedAt f = Some (PString s)"
  shows "exportData rt stringify defaultConfig \<lparr>infotrend_config = cfg, infotrend_feeds = Some feeds\<rparr> CSV
     = Inr (join [CHR 0x0A]
              (''id,title,source,url,summary,publishedAt,tags,aiSummary''
                 # map (\<lambda>f. projr (csv_row rt f)) feeds))"
  using map_throwing_strings [OF assms, of rt]
  by (simp add: exportData_def getFeeds_def csv_headers_def Let_def)

text \<open>
  C10 says that the CSV export returns the header and one row per stored item, also for
  items without \<open>publishedAt\<close>, and that quotes inside a quoted field are doubled. The
  code at a stored item without \<open>publishedAt\<close> (a trending repository has none):
  \<open>feed.publishedAt.toISOString()\<close> is evaluated on \<open>undefined\<close> and the export throws
  instead of returning. And at an item whose title and only tag are both
  \<open>say "hi"\<close>: the title is written with its quotes doubled, the tags field is written
  between quotes with the quotes of the tag left single.
\<close>

theorem exportData_csv_absent_publishedAt:
  "exportData rt stringify defaultConfig
      \<lparr>infotrend_config = cfg,
       infotrend_feeds = Some [plain_item ''github-owner/repo'' ''GitHub'' None]\<rparr> CSV
     = Inl (TypeError ''Cannot read properties of undefined (reading toISOString)'')
   \<and> csv_row rt
        ((plain_item ''x'' ''RSS'' (Some (PString ''2024-01-01T00:00:00.000Z'')))
           \<lparr>title := ''say '' @ quoted ''hi'', tags := Some [''say '' @ quoted ''hi'']\<rparr>)
     = Inr (join '',''
             [''x'', quoted (''say '' @ [dquote, dquote] @ ''hi'' @ [dquote, dquote]), ''RSS'',
              ''https://example.org/x'', quoted [], ''2024-01-01T00:00:00.000Z'',
              quoted (''say '' @ [dquote] @ ''hi'' @ [dquote]), quoted []])"
  by (simp add: exportData_def getFeeds_def getConfig_def csv_row_def dateStr_def plain_item_def
                double_quotes_def quoted_def dquote_def or_empty_def truthy_string_def Let_def)

end
